theory Spec2Isabelle
  imports Main
begin

section \<open>The terminal plugin of Cyberorganism (src/plugin/index.js)\<close>

text \<open>
  The plugin is a set of callbacks over five module-level variables (\<open>terminal\<close>,
  \<open>fitAddon\<close>, \<open>terminalContainer\<close>, \<open>terminalSidebar\<close>, \<open>websocket\<close>). JavaScript runs
  one callback at a time, to completion, so the program is modelled as a state record, one
  function per callback, and a step function that runs the callback of one event.

  What the browser and the libraries own is part of the state as well: the WebSocket
  objects the program created (a store, addressed by creation index, since the handlers
  of every socket read the one global \<open>websocket\<close>), the health requests in flight, the
  pending timers, the calls made on the xterm terminal, and the console.
\<close>

subsection \<open>JavaScript values\<close>

text \<open>
  The values \<open>JSON.parse\<close> can return, and \<open>undefined\<close> for a property that is not there.
  An object is the list of its own properties. Numbers are the integers: no callback
  computes with a number, they are only copied (the terminal's \<open>cols\<close> and \<open>rows\<close>) or
  printed, and where one is printed the model is of the integers below \<open>10^21\<close> in
  magnitude.
\<close>

datatype jsval =
    Undefined
  | Null
  | Boolean bool
  | Number int
  | String string
  | Array "jsval list"
  | Object "(string \<times> jsval) list"

datatype error = TypeError | SyntaxError | InvalidStateError

text \<open>
  \<open>v.k\<close> for a key \<open>k\<close> that no prototype defines (\<open>type\<close> and \<open>data\<close> are such keys):
  a TypeError on \<open>null\<close> and \<open>undefined\<close>, the own property of an object, \<open>undefined\<close>
  everywhere else.
\<close>

fun get_prop :: "jsval \<Rightarrow> string \<Rightarrow> error + jsval" where
  "get_prop Undefined k = Inl TypeError"
| "get_prop Null k = Inl TypeError"
| "get_prop (Object kvs) k = Inr (case map_of kvs k of None \<Rightarrow> Undefined | Some v \<Rightarrow> v)"
| "get_prop v k = Inr Undefined"

fun digits_of :: "nat \<Rightarrow> string" where
  "digits_of n =
     (if n < 10 then [char_of (48 + n)]
      else digits_of (n div 10) @ [char_of (48 + n mod 10)])"

definition show_int :: "int \<Rightarrow> string" where
  "show_int i = (if i < 0 then CHR ''-'' # digits_of (nat (- i)) else digits_of (nat i))"

text \<open>
  The string a template literal \<open>${v}\<close> puts in place of \<open>v\<close>, or the TypeError the
  conversion throws. An object that \<open>JSON.parse\<close> returned has no callable property of
  its own, so when it has a property \<open>toString\<close> of its own there is nothing to convert
  it with and the conversion throws; without one it prints as \<open>[object Object]\<close>. An
  array prints its elements from left to right, separated by commas, with \<open>null\<close> and
  \<open>undefined\<close> elements left empty. A number prints in decimal digits, which is what
  JavaScript prints for an integer of magnitude below \<open>10^21\<close>; the model has no other
  numbers.
\<close>

fun join_commas :: "string list \<Rightarrow> string" where
  "join_commas [] = []"
| "join_commas [s] = s"
| "join_commas (s # t # ss) = s @ '','' @ join_commas (t # ss)"

fun all_strings :: "(error + string) list \<Rightarrow> error + string list" where
  "all_strings [] = Inr []"
| "all_strings (Inl e # rs) = Inl e"
| "all_strings (Inr s # rs) = (case all_strings rs of Inl e \<Rightarrow> Inl e | Inr ss \<Rightarrow> Inr (s # ss))"

fun to_string :: "jsval \<Rightarrow> error + string" where
  "to_string Undefined = Inr ''undefined''"
| "to_string Null = Inr ''null''"
| "to_string (Boolean b) = Inr (if b then ''true'' else ''false'')"
| "to_string (Number n) = Inr (show_int n)"
| "to_string (String s) = Inr s"
| "to_string (Array vs) =
     (case all_strings (map (\<lambda>v. if v = Null \<or> v = Undefined then Inr [] else to_string v) vs) of
        Inl e \<Rightarrow> Inl e
      | Inr ss \<Rightarrow> Inr (join_commas ss))"
| "to_string (Object kvs) =
     (if map_of kvs ''toString'' = None then Inr ''[object Object]'' else Inl TypeError)"

subsection \<open>The state\<close>

text \<open>
  The terminal widget: its character grid, and the calls made on it, in order: by the
  plugin (\<open>clear\<close>, \<open>write\<close>, \<open>writeln\<close>) and by the fit addon (\<open>resize\<close>).
  \<open>terminal.write\<close> is recorded with the value it was given.
\<close>

datatype term_op = Clear | Write jsval | Writeln string | Resize int int

record xterm =
  cols :: int
  rows :: int
  screen :: "term_op list"

datatype readyState = CONNECTING | OPEN | CLOSING | CLOSED

text \<open>
  A WebSocket object: its \<open>readyState\<close> and the frames handed to \<open>send\<close> that the browser
  accepted. A frame is kept as the value given to \<open>JSON.stringify\<close>.
\<close>

record socket =
  readyState :: readyState
  sent :: "jsval list"

text \<open>The three callbacks the plugin passes to \<open>setTimeout\<close> after start-up.\<close>

datatype callback =
    FitResize
  | FitOnly
  | Reconnect

type_synonym timer = "nat \<times> callback"

text \<open>
  What was logged: \<open>debugLog(m)\<close>, \<open>debugLog\<close> of a text that ends in the message of a
  caught error, \<open>console.error(m, error)\<close> with a caught error, \<open>console.error(m, event)\<close>
  with the event given to \<open>onerror\<close>, and \<open>logseq.UI.showMsg(m, ...)\<close>.
\<close>

datatype log =
    DebugLog string
  | DebugLogError string error
  | ConsoleError string error
  | ConsoleErrorEvent string
  | ShowMsg string

text \<open>
  \<open>terminalSidebar\<close> holds the \<open>style.display\<close> of the sidebar element once it exists.
  \<open>websocket\<close> is a reference into \<open>sockets\<close>. \<open>proposed\<close> is what the fit addon
  measures for the container at this moment (\<open>None\<close> when it cannot measure).
  \<open>debugLog\<close> prefixes a timestamp, which the model leaves out.
\<close>

record state =
  terminal :: "xterm option"
  fitAddon :: bool
  terminalSidebar :: "string option"
  websocket :: "nat option"
  sockets :: "socket list"
  fetches :: nat
  timers :: "timer list"
  console :: "log list"
  proposed :: "(int \<times> int) option"

definition init :: state where
  "init = \<lparr>terminal = None, fitAddon = False, terminalSidebar = None, websocket = None,
           sockets = [], fetches = 0, timers = [], console = [], proposed = None\<rparr>"

subsection \<open>Statements, exceptions and blocks\<close>

text \<open>
  A statement either completes or throws; in both cases the effects it had so far stay.
\<close>

datatype res = Ok state | Thrown error state

fun state_of :: "res \<Rightarrow> state" where
  "state_of (Ok st) = st"
| "state_of (Thrown e st) = st"

fun block :: "(state \<Rightarrow> res) list \<Rightarrow> state \<Rightarrow> res" where
  "block [] st = Ok st"
| "block (c # cs) st = (case c st of Ok st' \<Rightarrow> block cs st' | Thrown e st' \<Rightarrow> Thrown e st')"

definition try_catch :: "(state \<Rightarrow> res) \<Rightarrow> (error \<Rightarrow> state \<Rightarrow> res) \<Rightarrow> state \<Rightarrow> res" where
  "try_catch body handler st =
     (case body st of Ok st' \<Rightarrow> Ok st' | Thrown e st' \<Rightarrow> handler e st')"

definition debugLog :: "string \<Rightarrow> state \<Rightarrow> res" where
  "debugLog m st = Ok (st\<lparr>console := console st @ [DebugLog m]\<rparr>)"

definition debugLog_error :: "string \<Rightarrow> error \<Rightarrow> state \<Rightarrow> res" where
  "debugLog_error m e st = Ok (st\<lparr>console := console st @ [DebugLogError m e]\<rparr>)"

definition console_error :: "string \<Rightarrow> error \<Rightarrow> state \<Rightarrow> res" where
  "console_error m e st = Ok (st\<lparr>console := console st @ [ConsoleError m e]\<rparr>)"

definition console_error_event :: "string \<Rightarrow> state \<Rightarrow> res" where
  "console_error_event m st = Ok (st\<lparr>console := console st @ [ConsoleErrorEvent m]\<rparr>)"

definition showMsg :: "string \<Rightarrow> state \<Rightarrow> res" where
  "showMsg m st = Ok (st\<lparr>console := console st @ [ShowMsg m]\<rparr>)"

text \<open>A method call on \<open>terminal\<close> throws a TypeError while the variable is undefined.\<close>

definition term_do :: "term_op \<Rightarrow> state \<Rightarrow> res" where
  "term_do op st =
     (case terminal st of
        None \<Rightarrow> Thrown TypeError st
      | Some t \<Rightarrow> Ok (st\<lparr>terminal := Some (t\<lparr>screen := screen t @ [op]\<rparr>)\<rparr>))"

text \<open>
  \<open>terminal.write(v)\<close>: xterm reads \<open>v.length\<close> before it queues \<open>v\<close>, which throws a
  TypeError when \<open>v\<close> is \<open>undefined\<close> or \<open>null\<close>; any other value is queued. What xterm
  makes of a queued value that is not a string happens in a later task, outside the
  handler.
\<close>

definition term_write :: "jsval \<Rightarrow> state \<Rightarrow> res" where
  "term_write v st =
     (if v = Undefined \<or> v = Null then Thrown TypeError st else term_do (Write v) st)"

text \<open>
  \<open>websocket.send(JSON.stringify(v))\<close> on the global: a TypeError without a socket, an
  InvalidStateError while the socket is still connecting, and on a socket that is closing
  or closed the browser discards the frame without an error.
\<close>

definition websocket_send :: "jsval \<Rightarrow> state \<Rightarrow> res" where
  "websocket_send v st =
     (case websocket st of
        None \<Rightarrow> Thrown TypeError st
      | Some i \<Rightarrow>
          if i < length (sockets st) then
            (case readyState (sockets st ! i) of
               CONNECTING \<Rightarrow> Thrown InvalidStateError st
             | OPEN \<Rightarrow>
                 Ok (st\<lparr>sockets := (sockets st)
                      [i := (sockets st ! i)\<lparr>sent := sent (sockets st ! i) @ [v]\<rparr>]\<rparr>)
             | CLOSING \<Rightarrow> Ok st
             | CLOSED \<Rightarrow> Ok st)
          else Thrown TypeError st)"

text \<open>The test \<open>websocket && websocket.readyState === WebSocket.OPEN\<close>.\<close>

definition connected :: "state \<Rightarrow> bool" where
  "connected st =
     (case websocket st of
        None \<Rightarrow> False
      | Some i \<Rightarrow> i < length (sockets st) \<and> readyState (sockets st ! i) = OPEN)"

definition input_frame :: "string \<Rightarrow> jsval" where
  "input_frame d = Object [(''type'', String ''input''), (''data'', String d)]"

definition resize_frame :: "int \<Rightarrow> int \<Rightarrow> jsval" where
  "resize_frame c r =
     Object [(''type'', String ''resize''), (''cols'', Number c), (''rows'', Number r)]"

text \<open>\<open>const { cols, rows } = terminal; websocket.send(JSON.stringify({ type: 'resize', cols, rows }))\<close>\<close>

definition send_resize :: "state \<Rightarrow> res" where
  "send_resize st =
     (case terminal st of
        None \<Rightarrow> Thrown TypeError st
      | Some t \<Rightarrow> websocket_send (resize_frame (cols t) (rows t)) st)"

text \<open>
  \<open>fitAddon.fit()\<close>: the terminal takes the grid the addon measures, by a call of
  \<open>terminal.resize\<close> when that grid is not the one it has; nothing happens when the addon
  cannot measure.
\<close>

definition fit :: "state \<Rightarrow> res" where
  "fit st =
     (case (proposed st, terminal st) of
        (Some (c, r), Some t) \<Rightarrow>
          Ok (st\<lparr>terminal := Some (t\<lparr>cols := c, rows := r,
                 screen := screen t @ (if c = cols t \<and> r = rows t then [] else [Resize c r])\<rparr>)\<rparr>)
      | _ \<Rightarrow> Ok st)"

definition if_then :: "(state \<Rightarrow> bool) \<Rightarrow> (state \<Rightarrow> res) \<Rightarrow> state \<Rightarrow> res" where
  "if_then c body st = (if c st then body st else Ok st)"

definition set_timeout :: "callback \<Rightarrow> nat \<Rightarrow> state \<Rightarrow> res" where
  "set_timeout cb ms st = Ok (st\<lparr>timers := timers st @ [(ms, cb)]\<rparr>)"

definition set_display :: "string \<Rightarrow> state \<Rightarrow> res" where
  "set_display d st =
     (case terminalSidebar st of
        None \<Rightarrow> Thrown TypeError st
      | Some _ \<Rightarrow> Ok (st\<lparr>terminalSidebar := Some d\<rparr>))"

subsection \<open>The callbacks\<close>

definition ESC :: char where
  "ESC = CHR 0x1B"

definition CRLF :: string where
  "CRLF = [CHR 0x0D, CHR 0x0A]"

definition BACKEND_URL :: string where
  "BACKEND_URL = ''http://127.0.0.1:3030''"

text \<open>
  \<open>connectToBackend\<close> starts \<open>fetch(`${BACKEND_URL}/health`)\<close>; the two callbacks of the
  promise are \<open>fetch_then\<close> and \<open>fetch_catch\<close> below.
\<close>

definition connectToBackend :: "state \<Rightarrow> res" where
  "connectToBackend =
     block [debugLog (''Connecting to backend server at '' @ BACKEND_URL),
            (\<lambda>st. Ok (st\<lparr>fetches := Suc (fetches st)\<rparr>))]"

definition banner :: "string list" where
  "banner =
     [CRLF @ ESC # ''[1;32mCyberorganism Terminal'' @ ESC # ''[0m'',
      ESC # ''[90mConnected to backend server'' @ ESC # ''[0m'' @ CRLF]"

definition onopen :: "state \<Rightarrow> res" where
  "onopen =
     block [debugLog ''WebSocket connected'',
            send_resize,
            term_do Clear,
            term_do (Writeln (banner ! 0)),
            term_do (Writeln (banner ! 1))]"

text \<open>
  A message event of a text frame: \<open>event.data\<close>, and what \<open>JSON.parse(event.data)\<close>
  returns (\<open>None\<close> when it throws a SyntaxError).
\<close>

record message_event =
  data :: string
  parsed :: "jsval option"

definition error_line :: "string \<Rightarrow> string" where
  "error_line s = CRLF @ ESC # ''[31mError: '' @ s @ ESC # ''[0m'' @ CRLF"

definition onmessage_try :: "message_event \<Rightarrow> state \<Rightarrow> res" where
  "onmessage_try ev st =
     (case parsed ev of
        None \<Rightarrow> Thrown SyntaxError st
      | Some message \<Rightarrow>
          (case get_prop message ''type'' of
             Inl e \<Rightarrow> Thrown e st
           | Inr ty \<Rightarrow>
               if ty = String ''output'' then
                 (case get_prop message ''data'' of
                    Inl e \<Rightarrow> Thrown e st
                  | Inr d \<Rightarrow> term_write d st)
               else if ty = String ''error'' then
                 (case get_prop message ''data'' of
                    Inl e \<Rightarrow> Thrown e st
                  | Inr d \<Rightarrow>
                      (case to_string d of
                         Inl e \<Rightarrow> Thrown e st
                       | Inr s \<Rightarrow> term_do (Writeln (error_line s)) st))
               else Ok st))"

definition onmessage_catch :: "message_event \<Rightarrow> error \<Rightarrow> state \<Rightarrow> res" where
  "onmessage_catch ev e =
     block [console_error ''Error parsing WebSocket message:'' e,
            term_write (String (data ev))]"

definition onmessage :: "message_event \<Rightarrow> state \<Rightarrow> res" where
  "onmessage ev = try_catch (onmessage_try ev) (onmessage_catch ev)"

definition onclose :: "state \<Rightarrow> res" where
  "onclose =
     block [debugLog ''WebSocket disconnected'',
            term_do (Writeln (CRLF @ ESC # ''[31mDisconnected from backend server.'' @ ESC # ''[0m'' @ CRLF)),
            set_timeout Reconnect 5000]"

definition onerror :: "state \<Rightarrow> res" where
  "onerror =
     block [console_error_event ''WebSocket error:'',
            term_do (Writeln (CRLF @ ESC # ''[31mWebSocket error. Reconnecting...'' @ ESC # ''[0m'' @ CRLF))]"

text \<open>
  \<open>connectWebSocket\<close>: \<open>new WebSocket(...)\<close> allocates a socket in state CONNECTING and the
  global is pointed at it; the four handlers above are attached to it.
\<close>

definition connectWebSocket :: "state \<Rightarrow> res" where
  "connectWebSocket =
     block [debugLog ''Connecting to WebSocket at ws://127.0.0.1:3030/terminal'',
            (\<lambda>st. Ok (st\<lparr>sockets := sockets st @ [\<lparr>readyState = CONNECTING, sent = []\<rparr>],
                          websocket := Some (length (sockets st))\<rparr>))]"

definition start_hint :: "string list" where
  "start_hint =
     [ESC # ''[33mPlease start the backend server with:'' @ ESC # ''[0m'',
      ESC # ''[1;34mcd /home/brandt/projects/cyberorganism && cargo run --bin server'' @ ESC # ''[0m'' @ CRLF]"

definition response_ok :: "int \<Rightarrow> bool" where
  "response_ok status = (200 \<le> status \<and> status \<le> 299)"

definition fetch_then :: "int \<Rightarrow> state \<Rightarrow> res" where
  "fetch_then status =
     block [debugLog (''Health check response: '' @ show_int status),
            (\<lambda>st. if response_ok status then
                     block [debugLog ''Health check successful, connecting to WebSocket'',
                            connectWebSocket] st
                   else
                     block [debugLog (''Health check failed with status: '' @ show_int status),
                            term_do (Writeln (CRLF @ ESC # ''[31mBackend server is not running.'' @ ESC # ''[0m'')),
                            term_do (Writeln (start_hint ! 0)),
                            term_do (Writeln (start_hint ! 1))] st)]"

definition fetch_catch :: "error \<Rightarrow> state \<Rightarrow> res" where
  "fetch_catch e =
     block [console_error ''Error connecting to backend:'' e,
            debugLog_error ''Connection error details: '' e,
            term_do (Writeln (CRLF @ ESC # ''[31mCannot connect to backend server.'' @ ESC # ''[0m'')),
            term_do (Writeln (start_hint ! 0)),
            term_do (Writeln (start_hint ! 1))]"

text \<open>The handler given to \<open>terminal.onData\<close>.\<close>

definition onData :: "string \<Rightarrow> state \<Rightarrow> res" where
  "onData d = if_then connected (websocket_send (input_frame d))"

text \<open>The listener of the window's \<open>resize\<close> event.\<close>

definition onresize :: "state \<Rightarrow> res" where
  "onresize = if_then fitAddon (block [fit, if_then connected send_resize])"

text \<open>The bodies of the three timer callbacks.\<close>

definition visible :: "state \<Rightarrow> bool" where
  "visible st = (case terminalSidebar st of None \<Rightarrow> False | Some d \<Rightarrow> d \<noteq> ''none'')"

fun run_callback :: "callback \<Rightarrow> state \<Rightarrow> res" where
  "run_callback FitResize = if_then fitAddon (block [fit, if_then connected send_resize])"
| "run_callback FitOnly = if_then fitAddon (block [fit, debugLog ''Fit terminal to container''])"
| "run_callback Reconnect = if_then visible connectToBackend"

text \<open>
  \<open>openTerminal\<close>. The first block runs once, when there is no sidebar yet: it creates the
  sidebar (its \<open>style.display\<close> is empty then), a terminal of xterm's default 80 by 24
  grid and the fit addon, fits, starts the connection and registers the input handler and
  the resize listener.
\<close>

definition create_terminal :: "state \<Rightarrow> res" where
  "create_terminal =
     block [(\<lambda>st. Ok (st\<lparr>terminalSidebar := Some [],
                          terminal := Some \<lparr>cols = 80, rows = 24, screen = []\<rparr>,
                          fitAddon := True\<rparr>)),
            fit,
            connectToBackend]"

definition openTerminal :: "state \<Rightarrow> res" where
  "openTerminal =
     block [if_then (\<lambda>st. terminalSidebar st = None) create_terminal,
            set_display ''flex'',
            set_timeout FitResize 100]"

definition toggleTerminal_try :: "state \<Rightarrow> res" where
  "toggleTerminal_try st =
     (if terminalSidebar st = None then
        block [debugLog ''Terminal sidebar does not exist, creating it'', openTerminal] st
      else if terminalSidebar st = Some ''none'' then
        block [debugLog ''Showing terminal sidebar'',
               set_display ''flex'',
               set_timeout FitOnly 100] st
      else
        block [debugLog ''Hiding terminal sidebar'', set_display ''none''] st)"

definition toggleTerminal :: "state \<Rightarrow> res" where
  "toggleTerminal =
     block [debugLog ''toggleTerminal function called'',
            showMsg ''Terminal button clicked'',
            try_catch toggleTerminal_try
              (\<lambda>e. block [debugLog_error ''Error in toggleTerminal function: '' e,
                          console_error ''Error in toggleTerminal function:'' e])]"

subsection \<open>Events\<close>

text \<open>
  One step is one event of the browser's loop with the callback the plugin registered for
  it. \<open>step\<close> is \<open>None\<close> where the event cannot happen: input without a terminal, a timer
  that is not pending, a response without a request, a socket event the socket's state
  excludes (a socket opens once, receives only while open, closes once). The input handler
  and the resize listener are registered in the block that creates the terminal, so they
  exist exactly when the terminal does. A timer keeps its delay as data; time itself is
  not modelled, and any pending timer may be the next to fire.

  \<^item> \<open>SlashTerminal\<close>: the slash command \<open>terminal\<close>; \<open>ToggleTerminal\<close>: the toolbar button
    or the key binding.
  \<^item> \<open>Data d\<close>: the user types or pastes \<open>d\<close> into the terminal.
  \<^item> \<open>Reflow v\<close>: the layout changes; the fit addon would now measure \<open>v\<close>.
  \<^item> \<open>WindowResize\<close>: the window's \<open>resize\<close> event.
  \<^item> \<open>Timeout k\<close>: the \<open>k\<close>-th pending timer fires.
  \<^item> \<open>HealthResponse status\<close>, \<open>HealthError\<close>: a health request is answered, or fails in
    transport (\<open>fetch\<close> rejects with a TypeError).
  \<^item> \<open>WsOpen i\<close>, \<open>WsMessage i ev\<close>, \<open>WsError i\<close>, \<open>WsClosing i\<close>, \<open>WsClose i\<close>: the events of
    socket \<open>i\<close>; \<open>WsClosing\<close> is the start of the closing handshake, for which the plugin
    has no handler.
\<close>

datatype event =
    SlashTerminal
  | ToggleTerminal
  | Data string
  | Reflow "(int \<times> int) option"
  | WindowResize
  | Timeout nat
  | HealthResponse int
  | HealthError
  | WsOpen nat
  | WsMessage nat message_event
  | WsError nat
  | WsClosing nat
  | WsClose nat

definition set_readyState :: "nat \<Rightarrow> readyState \<Rightarrow> state \<Rightarrow> state" where
  "set_readyState i r st = st\<lparr>sockets := (sockets st)[i := (sockets st ! i)\<lparr>readyState := r\<rparr>]\<rparr>"

definition ready :: "state \<Rightarrow> nat \<Rightarrow> readyState option" where
  "ready st i = (if i < length (sockets st) then Some (readyState (sockets st ! i)) else None)"

fun step :: "event \<Rightarrow> state \<Rightarrow> state option" where
  "step SlashTerminal st = Some (state_of (openTerminal st))"
| "step ToggleTerminal st = Some (state_of (toggleTerminal st))"
| "step (Data d) st =
     (if terminal st = None then None else Some (state_of (onData d st)))"
| "step (Reflow v) st = Some (st\<lparr>proposed := v\<rparr>)"
| "step WindowResize st =
     (if terminal st = None then Some st else Some (state_of (onresize st)))"
| "step (Timeout k) st =
     (if k < length (timers st) then
        Some (state_of (run_callback (snd (timers st ! k))
                (st\<lparr>timers := take k (timers st) @ drop (Suc k) (timers st)\<rparr>)))
      else None)"
| "step (HealthResponse status) st =
     (if 0 < fetches st then
        Some (state_of (try_catch (fetch_then status) fetch_catch (st\<lparr>fetches := fetches st - 1\<rparr>)))
      else None)"
| "step HealthError st =
     (if 0 < fetches st then
        Some (state_of (fetch_catch TypeError (st\<lparr>fetches := fetches st - 1\<rparr>)))
      else None)"
| "step (WsOpen i) st =
     (if ready st i = Some CONNECTING then Some (state_of (onopen (set_readyState i OPEN st)))
      else None)"
| "step (WsMessage i ev) st =
     (if ready st i = Some OPEN then Some (state_of (onmessage ev st)) else None)"
| "step (WsError i) st =
     (if i < length (sockets st) then Some (state_of (onerror st)) else None)"
| "step (WsClosing i) st =
     (if ready st i = Some OPEN then Some (set_readyState i CLOSING st) else None)"
| "step (WsClose i) st =
     (if ready st i \<noteq> None \<and> ready st i \<noteq> Some CLOSED
      then Some (state_of (onclose (set_readyState i CLOSED st)))
      else None)"

fun run :: "event list \<Rightarrow> state \<Rightarrow> state option" where
  "run [] st = Some st"
| "run (e # es) st = (case step e st of None \<Rightarrow> None | Some st' \<Rightarrow> run es st')"

subsection \<open>The invariant of the connection life cycle\<close>

text \<open>
  The reconnect timers that are pending, and the part of the state the life cycle of the
  connection depends on: whether the sidebar and the terminal exist, the fit addon, the
  global socket, the \<open>readyState\<close> of every socket, the health requests in flight and
  the number of pending reconnect timers.
\<close>

definition reconnects :: "state \<Rightarrow> nat" where
  "reconnects st = length (filter (\<lambda>t. snd t = Reconnect) (timers st))"

type_synonym shape = "bool \<times> bool \<times> bool \<times> nat option \<times> readyState list \<times> nat \<times> nat"

definition shape :: "state \<Rightarrow> shape" where
  "shape st = (terminalSidebar st = None, terminal st = None, fitAddon st, websocket st,
               map readyState (sockets st), fetches st, reconnects st)"

definition live :: "readyState list \<Rightarrow> nat" where
  "live rs = length (filter (\<lambda>r. r \<noteq> CLOSED) rs)"

text \<open>
  The invariant. Before the sidebar exists nothing else does. Once it exists, so do the
  terminal and the fit addon. The global socket is the socket created last, every older
  socket is closed, and of a health request in flight, a socket that is not closed and a
  pending reconnect timer there is at most one at any time: the session is one chain of
  probe, stream and reconnect delay.
\<close>

fun wf_shape :: "shape \<Rightarrow> bool" where
  "wf_shape (no_sidebar, no_terminal, fa, ws, rs, f, r) =
     ((no_sidebar \<longrightarrow> no_terminal \<and> \<not> fa \<and> rs = [] \<and> f = 0 \<and> r = 0)
      \<and> (\<not> no_sidebar \<longrightarrow> \<not> no_terminal \<and> fa)
      \<and> ws = (if rs = [] then None else Some (length rs - 1))
      \<and> list_all (\<lambda>r. r = CLOSED) (butlast rs)
      \<and> f + live rs + r \<le> 1)"

definition wf :: "state \<Rightarrow> bool" where
  "wf st = wf_shape (shape st)"

text \<open>A statement keeps the shape when it leaves it as it is, whether it throws or not.\<close>

definition keeps :: "(state \<Rightarrow> res) \<Rightarrow> bool" where
  "keeps c = (\<forall>st. shape (state_of (c st)) = shape st)"

subsection \<open>Notions the properties are stated with\<close>

text \<open>The state after socket \<open>i\<close> accepted the frames \<open>fs\<close>, and after timer \<open>k\<close> is gone.\<close>

definition with_sent :: "nat \<Rightarrow> jsval list \<Rightarrow> state \<Rightarrow> state" where
  "with_sent i fs st =
     st\<lparr>sockets := (sockets st)[i := (sockets st ! i)\<lparr>sent := sent (sockets st ! i) @ fs\<rparr>]\<rparr>"

definition without_timer :: "nat \<Rightarrow> state \<Rightarrow> state" where
  "without_timer k st = st\<lparr>timers := take k (timers st) @ drop (Suc k) (timers st)\<rparr>"

text \<open>A parsed message \<open>m\<close> whose \<open>type\<close> is the string \<open>ty\<close> and whose \<open>data\<close> is \<open>d\<close>.\<close>

definition is_frame :: "string \<Rightarrow> jsval \<Rightarrow> jsval \<Rightarrow> bool" where
  "is_frame ty d m = (get_prop m ''type'' = Inr (String ty) \<and> get_prop m ''data'' = Inr d)"

text \<open>The three lines written when the probe is answered badly, and when it fails.\<close>

definition not_running :: "string list" where
  "not_running =
     [CRLF @ ESC # ''[31mBackend server is not running.'' @ ESC # ''[0m'',
      start_hint ! 0, start_hint ! 1]"

definition cannot_connect :: "string list" where
  "cannot_connect =
     [CRLF @ ESC # ''[31mCannot connect to backend server.'' @ ESC # ''[0m'',
      start_hint ! 0, start_hint ! 1]"

subsection \<open>The buffer of the terminal\<close>













subsection \<open>Example sessions\<close>

text \<open>
  The user opens the terminal, the probe is answered with 200 and the socket opens
  (\<open>connect_events\<close>); then the server closes the stream (\<open>closed_events\<close>) and the
  user hides the sidebar (\<open>hidden_state\<close>), or the reconnect timer fires first and the
  user hides the sidebar while the probe is in flight (\<open>hidden_probe_events\<close>). In
  \<open>resized_while_hidden\<close> the terminal is fitted to 37 by 40 before it connects, the user
  hides the sidebar, and the window is resized while the fit addon cannot measure the
  hidden container.
\<close>

definition connect_events :: "event list" where
  "connect_events = [ToggleTerminal, HealthResponse 200, WsOpen 0]"

definition closed_events :: "event list" where
  "closed_events = connect_events @ [WsClose 0]"

definition connected_state :: state where
  "connected_state = the (run connect_events init)"

definition closed_state :: state where
  "closed_state = the (run closed_events init)"




definition resized_while_hidden :: "event list" where
  "resized_while_hidden =
     [Reflow (Some (37, 40)), ToggleTerminal, Timeout 0, HealthResponse 200, WsOpen 0,
      ToggleTerminal, Reflow None, WindowResize]"

text \<open>Frames a server can send: two well-formed ones, and three the protocol does not have.\<close>

definition error_frame_example :: message_event where
  \<open>error_frame_example =
     \<lparr>data = ''{"type":"error","data":"shell exited"}'',
      parsed = Some (Object [(''type'', String ''error''), (''data'', String ''shell exited'')])\<rparr>\<close>

definition output_frame_example :: message_event where
  \<open>output_frame_example =
     \<lparr>data = ''{"type":"output","data":"'' @ CHR 0x5C # ''u001b[1mhi'' @ CHR 0x5C # ''r''
               @ CHR 0x5C # ''n"}'',
      parsed = Some (Object [(''type'', String ''output''),
                             (''data'', String (ESC # ''[1mhi'' @ CRLF))])\<rparr>\<close>

definition garbage_frame_example :: message_event where
  "garbage_frame_example = \<lparr>data = ''total 12'', parsed = None\<rparr>"

definition null_frame_example :: message_event where
  "null_frame_example = \<lparr>data = ''null'', parsed = Some Null\<rparr>"

definition resize_echo_example :: message_event where
  \<open>resize_echo_example =
     \<lparr>data = ''{"type":"resize","cols":80,"rows":24}'',
      parsed = Some (resize_frame 80 24)\<rparr>\<close>






section \<open>Properties\<close>

subsection \<open>Statements that keep the shape\<close>

lemma keeps_block: "list_all keeps cs \<Longrightarrow> keeps (block cs)"
proof (induction cs)
  case Nil
  then show ?case by (simp add: keeps_def)
next
  case (Cons c cs)
  then have c: "keeps c" and cs: "keeps (block cs)" by simp_all
  show ?case
    unfolding keeps_def
  proof
    fix st
    show "shape (state_of (block (c # cs) st)) = shape st"
    proof (cases "c st")
      case (Ok st')
      then have "shape st' = shape st" using c by (metis keeps_def state_of.simps(1))
      moreover have "shape (state_of (block cs st')) = shape st'" using cs by (simp add: keeps_def)
      ultimately show ?thesis using Ok by simp
    next
      case (Thrown e st')
      then have "shape st' = shape st" using c by (metis keeps_def state_of.simps(2))
      then show ?thesis using Thrown by simp
    qed
  qed
qed

lemma keeps_if_then: "keeps c \<Longrightarrow> keeps (if_then b c)"
  by (simp add: keeps_def if_then_def)

lemma shape_try_catch:
  assumes "\<And>e. keeps (h e)"
  shows "shape (state_of (try_catch b h st)) = shape (state_of (b st))"
proof (cases "b st")
  case (Ok st')
  then show ?thesis by (simp add: try_catch_def)
next
  case (Thrown e st')
  then show ?thesis using assms [of e] by (simp add: try_catch_def keeps_def)
qed

lemma keeps_try_catch: "keeps b \<Longrightarrow> (\<And>e. keeps (h e)) \<Longrightarrow> keeps (try_catch b h)"
  by (simp add: keeps_def shape_try_catch)

lemma shape_block_Cons: "keeps (block cs) \<Longrightarrow> shape (state_of (block (c # cs) st)) = shape (state_of (c st))"
  by (cases "c st") (simp_all add: keeps_def)

lemma keeps_debugLog: "keeps (debugLog m)"
  by (simp add: keeps_def debugLog_def shape_def reconnects_def)

lemma keeps_debugLog_error: "keeps (debugLog_error m e)"
  by (simp add: keeps_def debugLog_error_def shape_def reconnects_def)

lemma keeps_console_error: "keeps (console_error m e)"
  by (simp add: keeps_def console_error_def shape_def reconnects_def)

lemma keeps_console_error_event: "keeps (console_error_event m)"
  by (simp add: keeps_def console_error_event_def shape_def reconnects_def)

lemma keeps_showMsg: "keeps (showMsg m)"
  by (simp add: keeps_def showMsg_def shape_def reconnects_def)

lemma keeps_term_do: "keeps (term_do op)"
  by (simp add: keeps_def term_do_def shape_def reconnects_def split: option.splits)

lemma keeps_term_write: "keeps (term_write v)"
  using keeps_term_do by (simp add: keeps_def term_write_def)

lemma keeps_fit: "keeps fit"
  by (simp add: keeps_def fit_def shape_def reconnects_def split: option.splits prod.splits)

lemma map_update_same: "i < length xs \<Longrightarrow> f (xs ! i) = r \<Longrightarrow> (map f xs)[i := r] = map f xs"
  by (simp add: list_eq_iff_nth_eq nth_list_update)

lemma keeps_websocket_send: "keeps (websocket_send v)"
  by (simp add: keeps_def websocket_send_def shape_def reconnects_def map_update map_update_same
           split: option.splits readyState.splits)

lemma keeps_send_resize: "keeps send_resize"
  using keeps_websocket_send
  by (simp add: keeps_def send_resize_def split: option.splits)

lemma keeps_set_display: "keeps (set_display d)"
  by (simp add: keeps_def set_display_def shape_def reconnects_def split: option.splits)

lemma keeps_set_timeout: "cb \<noteq> Reconnect \<Longrightarrow> keeps (set_timeout cb ms)"
  by (simp add: keeps_def set_timeout_def shape_def reconnects_def)

lemmas keeps_intros = keeps_block keeps_if_then keeps_try_catch keeps_debugLog keeps_debugLog_error
  keeps_console_error keeps_console_error_event keeps_showMsg keeps_term_do keeps_term_write keeps_fit keeps_websocket_send keeps_send_resize
  keeps_set_display keeps_set_timeout

lemma keeps_onData: "keeps (onData d)"
  by (simp add: onData_def keeps_intros)

lemma keeps_onresize: "keeps onresize"
  by (simp add: onresize_def keeps_intros)

lemma keeps_onopen: "keeps onopen"
  by (simp add: onopen_def keeps_intros)

lemma keeps_onerror: "keeps onerror"
  by (simp add: onerror_def keeps_intros)

lemma keeps_onmessage_try: "keeps (onmessage_try ev)"
  using keeps_term_do keeps_term_write
  by (simp add: keeps_def onmessage_try_def split: option.splits sum.splits)

lemma keeps_onmessage: "keeps (onmessage ev)"
  by (simp add: onmessage_def onmessage_catch_def keeps_onmessage_try keeps_intros)

lemma keeps_fetch_catch: "keeps (fetch_catch e)"
  by (simp add: fetch_catch_def keeps_intros)

subsection \<open>The invariant holds in every reachable state\<close>

lemma wf_keeps: "keeps c \<Longrightarrow> wf st \<Longrightarrow> wf (state_of (c st))"
  by (simp add: keeps_def wf_def)

lemma wf_init: "wf init"
  by (simp add: wf_def shape_def init_def reconnects_def live_def)

text \<open>Counting in a list of which one element is removed or replaced.\<close>

lemma count_remove_nth:
  assumes "k < length xs"
  shows "length (filter P (take k xs @ drop (Suc k) xs)) + (if P (xs ! k) then 1 else 0)
           = length (filter P xs)"
proof -
  have "xs = take k xs @ xs ! k # drop (Suc k) xs"
    using assms by (rule id_take_nth_drop)
  then have "length (filter P xs) = length (filter P (take k xs @ xs ! k # drop (Suc k) xs))"
    by simp
  then show ?thesis by simp
qed

lemma count_update:
  assumes "i < length xs"
  shows "length (filter P (xs[i := y])) + (if P (xs ! i) then 1 else 0)
           = length (filter P xs) + (if P y then 1 else 0)"
proof -
  have "xs[i := y] = take i xs @ y # drop (Suc i) xs"
    using assms by (rule upd_conv_take_nth_drop)
  then have "length (filter P (xs[i := y])) + (if P (xs ! i) then 1 else 0)
      = length (filter P (take i xs @ drop (Suc i) xs)) + (if P (xs ! i) then 1 else 0)
        + (if P y then 1 else 0)"
    by simp
  then show ?thesis using count_remove_nth [OF assms, of P] by simp
qed

lemma live_zero: "live rs = 0 \<longleftrightarrow> list_all (\<lambda>r. r = CLOSED) rs"
  by (induction rs) (simp_all add: live_def)

lemma shape_create_terminal:
  "shape (state_of (create_terminal st))
     = (False, False, True, websocket st, map readyState (sockets st), Suc (fetches st), reconnects st)"
  by (simp add: create_terminal_def connectToBackend_def debugLog_def fit_def shape_def reconnects_def
           split: option.splits prod.splits)

lemma wf_openTerminal: "wf st \<Longrightarrow> wf (state_of (openTerminal st))"
proof (cases "terminalSidebar st")
  case None
  assume "wf st"
  have k: "keeps (block [set_display ''flex'', set_timeout FitResize 100])"
    by (simp add: keeps_intros)
  have "openTerminal st = block (create_terminal # [set_display ''flex'', set_timeout FitResize 100]) st"
    using None by (simp add: openTerminal_def if_then_def)
  then have "shape (state_of (openTerminal st)) = shape (state_of (create_terminal st))"
    using shape_block_Cons [OF k] by simp
  then show ?thesis
    using \<open>wf st\<close> None by (simp add: wf_def shape_create_terminal) (simp add: shape_def live_def)
next
  case (Some d)
  assume "wf st"
  have "keeps (block [set_display ''flex'', set_timeout FitResize 100])"
    by (simp add: keeps_intros)
  moreover have "openTerminal st = block [set_display ''flex'', set_timeout FitResize 100] st"
    using Some by (simp add: openTerminal_def if_then_def)
  ultimately show ?thesis using \<open>wf st\<close> wf_keeps by metis
qed

lemma wf_toggleTerminal_try: "wf st \<Longrightarrow> wf (state_of (toggleTerminal_try st))"
proof (cases "terminalSidebar st")
  case None
  assume w: "wf st"
  let ?st = "st\<lparr>console := console st @ [DebugLog ''Terminal sidebar does not exist, creating it'']\<rparr>"
  have "shape ?st = shape st" by (simp add: shape_def reconnects_def)
  then have "wf ?st" using w by (simp add: wf_def)
  then have "wf (state_of (openTerminal ?st))" by (rule wf_openTerminal)
  moreover have "toggleTerminal_try st = openTerminal ?st"
    using None by (simp add: toggleTerminal_try_def debugLog_def) (cases "openTerminal ?st"; simp)
  ultimately show ?thesis by simp
next
  case (Some d)
  assume w: "wf st"
  have 1: "keeps (block [debugLog ''Showing terminal sidebar'', set_display ''flex'', set_timeout FitOnly 100])"
    by (simp add: keeps_intros)
  have 2: "keeps (block [debugLog ''Hiding terminal sidebar'', set_display ''none''])"
    by (simp add: keeps_intros)
  show ?thesis
  proof (cases "d = ''none''")
    case True
    then have "toggleTerminal_try st
        = block [debugLog ''Showing terminal sidebar'', set_display ''flex'', set_timeout FitOnly 100] st"
      using Some by (simp add: toggleTerminal_try_def)
    then show ?thesis using wf_keeps [OF 1 w] by simp
  next
    case False
    then have "toggleTerminal_try st
        = block [debugLog ''Hiding terminal sidebar'', set_display ''none''] st"
      using Some by (simp add: toggleTerminal_try_def)
    then show ?thesis using wf_keeps [OF 2 w] by simp
  qed
qed

lemma wf_toggleTerminal: "wf st \<Longrightarrow> wf (state_of (toggleTerminal st))"
proof -
  assume w: "wf st"
  let ?h = "\<lambda>e. block [debugLog_error ''Error in toggleTerminal function: '' e,
                          console_error ''Error in toggleTerminal function:'' e]"
  let ?st = "st\<lparr>console := console st @ [DebugLog ''toggleTerminal function called'',
                                              ShowMsg ''Terminal button clicked'']\<rparr>"
  have "shape ?st = shape st" by (simp add: shape_def reconnects_def)
  then have "wf ?st" using w by (simp add: wf_def)
  then have "wf (state_of (toggleTerminal_try ?st))" by (rule wf_toggleTerminal_try)
  moreover have "shape (state_of (try_catch toggleTerminal_try ?h ?st)) = shape (state_of (toggleTerminal_try ?st))"
    by (rule shape_try_catch) (simp add: keeps_intros)
  moreover have "toggleTerminal st = try_catch toggleTerminal_try ?h ?st"
    by (simp add: toggleTerminal_def debugLog_def showMsg_def) (cases "try_catch toggleTerminal_try ?h ?st"; simp)
  ultimately show ?thesis by (simp add: wf_def)
qed

lemma keeps_run_callback: "cb \<noteq> Reconnect \<Longrightarrow> keeps (run_callback cb)"
  by (cases cb) (simp_all add: keeps_intros)

lemma shape_connectToBackend:
  "shape (state_of (connectToBackend st))
     = (terminalSidebar st = None, terminal st = None, fitAddon st, websocket st,
        map readyState (sockets st), Suc (fetches st), reconnects st)"
  by (simp add: connectToBackend_def debugLog_def shape_def reconnects_def)

lemma wf_Timeout:
  assumes w: "wf st" and k: "k < length (timers st)"
  shows "wf (state_of (run_callback (snd (timers st ! k))
           (st\<lparr>timers := take k (timers st) @ drop (Suc k) (timers st)\<rparr>)))"
proof -
  let ?st = "st\<lparr>timers := take k (timers st) @ drop (Suc k) (timers st)\<rparr>"
  have r: "reconnects ?st + (if snd (timers st ! k) = Reconnect then 1 else 0) = reconnects st"
    using count_remove_nth [OF k, of "\<lambda>t. snd t = Reconnect"] by (simp add: reconnects_def)
  show ?thesis
  proof (cases "snd (timers st ! k) = Reconnect")
    case False
    then have "shape ?st = shape st" using r by (simp add: shape_def)
    then have "wf ?st" using w by (simp add: wf_def)
    then show ?thesis using wf_keeps [OF keeps_run_callback [OF False]] by simp
  next
    case True
    then have r': "Suc (reconnects ?st) = reconnects st" using r by simp
    then have s: "terminalSidebar st \<noteq> None" using w by (auto simp: wf_def shape_def)
    have "wf ?st" using w r' by (auto simp: wf_def shape_def)
    moreover have "wf (state_of (connectToBackend ?st))"
      using w r' s by (simp add: wf_def shape_connectToBackend) (auto simp: shape_def)
    ultimately show ?thesis using True by (simp add: if_then_def)
  qed
qed

lemma shape_connectWebSocket:
  "shape (state_of (connectWebSocket st))
     = (terminalSidebar st = None, terminal st = None, fitAddon st, Some (length (sockets st)),
        map readyState (sockets st) @ [CONNECTING], fetches st, reconnects st)"
  by (simp add: connectWebSocket_def debugLog_def shape_def reconnects_def)

lemma shape_fetch_then:
  "shape (state_of (fetch_then status st))
      = (if response_ok status then shape (state_of (connectWebSocket st)) else shape st)"
proof (cases "response_ok status")
  case True
  let ?st = "st\<lparr>console := console st @ [DebugLog (''Health check response: '' @ show_int status),
                      DebugLog ''Health check successful, connecting to WebSocket'']\<rparr>"
  have "fetch_then status st = connectWebSocket ?st"
    using True by (simp add: fetch_then_def debugLog_def) (cases "connectWebSocket ?st"; simp)
  moreover have "shape (state_of (connectWebSocket ?st)) = shape (state_of (connectWebSocket st))"
    by (simp add: shape_connectWebSocket) (simp add: reconnects_def)
  ultimately show ?thesis using True by simp
next
  case False
  let ?st = "st\<lparr>console := console st @ [DebugLog (''Health check response: '' @ show_int status),
                      DebugLog (''Health check failed with status: '' @ show_int status)]\<rparr>"
  let ?b = "block [term_do (Writeln (CRLF @ ESC # ''[31mBackend server is not running.'' @ ESC # ''[0m'')),
                            term_do (Writeln (start_hint ! 0)),
                            term_do (Writeln (start_hint ! 1))]"
  have "fetch_then status st = ?b ?st"
    using False by (simp add: fetch_then_def debugLog_def) (cases "?b ?st"; simp)
  moreover have "keeps ?b" by (simp add: keeps_intros)
  moreover have "shape ?st = shape st" by (simp add: shape_def reconnects_def)
  ultimately show ?thesis using False by (simp add: keeps_def)
qed

lemma wf_HealthResponse:
  assumes w: "wf st" and f: "0 < fetches st"
  shows "wf (state_of (try_catch (fetch_then status) fetch_catch (st\<lparr>fetches := fetches st - 1\<rparr>)))"
proof -
  let ?st = "st\<lparr>fetches := fetches st - 1\<rparr>"
  have l: "live (map readyState (sockets st)) = 0" and r: "reconnects st = 0" and f1: "fetches st = 1"
    using w f by (auto simp: wf_def shape_def)
  have c: "list_all (\<lambda>r. r = CLOSED) (map readyState (sockets st))"
    using l by (simp add: live_zero)
  have s: "shape (state_of (try_catch (fetch_then status) fetch_catch ?st)) = shape (state_of (fetch_then status ?st))"
    by (rule shape_try_catch) (rule keeps_fetch_catch)
  have w0: "wf_shape (shape ?st)"
    using w f1 by (auto simp: wf_def shape_def reconnects_def)
  have w1: "wf_shape (shape (state_of (connectWebSocket ?st)))"
    using w f1 l r c by (simp add: shape_connectWebSocket) (auto simp: wf_def shape_def reconnects_def live_def)
  show ?thesis
    unfolding wf_def s shape_fetch_then using w0 w1 by simp
qed

lemma wf_HealthError:
  assumes w: "wf st" and f: "0 < fetches st"
  shows "wf (state_of (fetch_catch e (st\<lparr>fetches := fetches st - 1\<rparr>)))"
proof -
  have "wf (st\<lparr>fetches := fetches st - 1\<rparr>)"
    using w f by (auto simp: wf_def shape_def reconnects_def)
  then show ?thesis by (rule wf_keeps [OF keeps_fetch_catch])
qed

lemma open_is_last:
  assumes "list_all P (butlast rs)" and "i < length rs" and "\<not> P (rs ! i)"
  shows "i = length rs - 1"
proof (rule ccontr)
  assume "i \<noteq> length rs - 1"
  then have i: "i < length (butlast rs)" using assms(2) by simp
  then have "P (butlast rs ! i)" using assms(1) by (simp add: list_all_length)
  then show False using assms(3) i by (simp add: nth_butlast)
qed

lemma live_pos: "i < length rs \<Longrightarrow> rs ! i \<noteq> CLOSED \<Longrightarrow> 0 < live rs"
  unfolding live_def by (metis (mono_tags, lifting) filter_empty_conv length_greater_0_conv nth_mem)

lemma wf_live_socket:
  assumes w: "wf st" and i: "i < length (sockets st)" and r: "readyState (sockets st ! i) \<noteq> CLOSED"
  shows "websocket st = Some i" and "terminal st \<noteq> None" and "fetches st = 0" and "reconnects st = 0"
    and "live (map readyState (sockets st)) = 1" and "i = length (sockets st) - 1"
proof -
  let ?rs = "map readyState (sockets st)"
  have b: "list_all (\<lambda>r. r = CLOSED) (butlast ?rs)" and ws: "websocket st = (if ?rs = [] then None else Some (length ?rs - 1))"
    and le: "fetches st + live ?rs + reconnects st \<le> 1"
    and t: "terminalSidebar st = None \<longrightarrow> ?rs = []"
    and t': "terminalSidebar st \<noteq> None \<longrightarrow> terminal st \<noteq> None"
    using w by (simp_all add: wf_def shape_def)
  have i': "i < length ?rs" and r': "?rs ! i \<noteq> CLOSED" using i r by simp_all
  have "i = length ?rs - 1" using open_is_last [OF b i'] r' by simp
  then show "i = length (sockets st) - 1" by simp
  then show "websocket st = Some i" using ws i by auto
  show "terminal st \<noteq> None" using t t' i by auto
  have "0 < live ?rs" using live_pos [OF i' r'] .
  then show "fetches st = 0" and "reconnects st = 0" and "live ?rs = 1" using le by simp_all
qed

lemma shape_set_readyState:
  "shape (set_readyState i r st)
     = (terminalSidebar st = None, terminal st = None, fitAddon st, websocket st,
        (map readyState (sockets st))[i := r], fetches st, reconnects st)"
  by (simp add: set_readyState_def shape_def reconnects_def map_update)

lemma live_update:
  assumes "i < length rs" and "rs ! i \<noteq> CLOSED"
  shows "live (rs[i := r]) + 1 = live rs + (if r \<noteq> CLOSED then 1 else 0)"
  using count_update [OF assms(1), of "\<lambda>r. r \<noteq> CLOSED" r] assms(2) by (simp add: live_def)

lemma wf_set_readyState:
  assumes w: "wf st" and i: "i < length (sockets st)" and r: "readyState (sockets st ! i) \<noteq> CLOSED"
  shows "wf_shape (terminalSidebar st = None, terminal st = None, fitAddon st, websocket st,
        (map readyState (sockets st))[i := r'], 0, if r' = CLOSED then n else 0)
        = (r' = CLOSED \<longrightarrow> n \<le> 1)"
proof -
  let ?rs = "map readyState (sockets st)"
  have i': "i < length ?rs" and r1: "?rs ! i \<noteq> CLOSED" using i r by simp_all
  have l: "live (?rs[i := r']) + 1 = live ?rs + (if r' \<noteq> CLOSED then 1 else 0)"
    by (rule live_update [OF i' r1])
  have last: "i = length ?rs - 1" using wf_live_socket(6) [OF w i r] by simp
  then have b: "butlast (?rs[i := r']) = butlast ?rs" by (simp add: butlast_list_update)
  have ne: "?rs \<noteq> []" using i by auto
  have "live ?rs = 1" by (rule wf_live_socket(5) [OF w i r])
  then have l': "live (?rs[i := r']) = (if r' \<noteq> CLOSED then 1 else 0)" using l by simp
  have t: "terminalSidebar st \<noteq> None" "terminal st \<noteq> None" "fitAddon st"
    and ws: "websocket st = Some (length ?rs - 1)"
    and bl: "list_all (\<lambda>r. r = CLOSED) (butlast ?rs)"
    using w ne by (auto simp: wf_def shape_def)
  show ?thesis
    using t ws bl ne by (simp add: b l' del: butlast_list_update)
qed

lemma ready_Some: "ready st i = Some r \<longleftrightarrow> i < length (sockets st) \<and> readyState (sockets st ! i) = r"
  by (auto simp: ready_def)

lemma wf_WsOpen:
  assumes w: "wf st" and r: "ready st i = Some CONNECTING"
  shows "wf (state_of (onopen (set_readyState i OPEN st)))"
proof -
  have i: "i < length (sockets st)" and c: "readyState (sockets st ! i) \<noteq> CLOSED"
    using r by (simp_all add: ready_Some)
  have "wf (set_readyState i OPEN st)"
    using wf_set_readyState [OF w i c, of OPEN] wf_live_socket(3,4) [OF w i c]
    by (simp add: wf_def shape_set_readyState)
  then show ?thesis by (rule wf_keeps [OF keeps_onopen])
qed

lemma wf_WsClosing:
  assumes w: "wf st" and r: "ready st i = Some OPEN"
  shows "wf (set_readyState i CLOSING st)"
proof -
  have i: "i < length (sockets st)" and c: "readyState (sockets st ! i) \<noteq> CLOSED"
    using r by (simp_all add: ready_Some)
  show ?thesis
    using wf_set_readyState [OF w i c, of CLOSING] wf_live_socket(3,4) [OF w i c]
    by (simp add: wf_def shape_set_readyState)
qed

lemma shape_onclose:
  "shape (state_of (onclose st))
     = (terminalSidebar st = None, terminal st = None, fitAddon st, websocket st,
        map readyState (sockets st), fetches st,
        if terminal st = None then reconnects st else Suc (reconnects st))"
  by (simp add: onclose_def debugLog_def term_do_def set_timeout_def shape_def reconnects_def
           split: option.splits)

lemma wf_WsClose:
  assumes w: "wf st" and i: "i < length (sockets st)" and c: "readyState (sockets st ! i) \<noteq> CLOSED"
  shows "wf (state_of (onclose (set_readyState i CLOSED st)))"
proof -
  let ?st = "set_readyState i CLOSED st"
  have f: "fetches st = 0" "reconnects st = 0" "terminal st \<noteq> None"
    using wf_live_socket [OF w i c] by simp_all
  have s: "shape ?st = (terminalSidebar st = None, terminal st = None, fitAddon st, websocket st,
        (map readyState (sockets st))[i := CLOSED], 0, 0)"
    using f by (simp add: shape_set_readyState)
  have "shape (state_of (onclose ?st)) = (terminalSidebar st = None, terminal st = None, fitAddon st, websocket st,
        (map readyState (sockets st))[i := CLOSED], 0, if CLOSED = CLOSED then 1 else 0)"
    using s f by (simp add: shape_onclose) (simp add: shape_def set_readyState_def)
  then show ?thesis
    unfolding wf_def using wf_set_readyState [OF w i c, of CLOSED 1] by simp
qed

theorem wf_step:
  assumes w: "wf st" and s: "step e st = Some st'"
  shows "wf st'"
proof (cases e)
  case SlashTerminal
  then show ?thesis using w s wf_openTerminal by auto
next
  case ToggleTerminal
  then show ?thesis using w s wf_toggleTerminal by auto
next
  case (Data d)
  then show ?thesis using w s wf_keeps [OF keeps_onData] by (auto split: if_splits)
next
  case (Reflow v)
  then have "shape st' = shape st" using s by (auto simp: shape_def reconnects_def)
  then show ?thesis using w by (simp add: wf_def)
next
  case WindowResize
  then show ?thesis using w s wf_keeps [OF keeps_onresize] by (auto split: if_splits)
next
  case (Timeout k)
  then show ?thesis using w s wf_Timeout by (auto split: if_splits)
next
  case (HealthResponse status)
  then show ?thesis using w s wf_HealthResponse by (auto split: if_splits)
next
  case HealthError
  then show ?thesis using w s wf_HealthError by (auto split: if_splits)
next
  case (WsOpen i)
  then show ?thesis using w s wf_WsOpen by (auto split: if_splits)
next
  case (WsMessage i ev)
  then show ?thesis using w s wf_keeps [OF keeps_onmessage] by (auto split: if_splits)
next
  case (WsError i)
  then show ?thesis using w s wf_keeps [OF keeps_onerror] by (auto split: if_splits)
next
  case (WsClosing i)
  then show ?thesis using w s wf_WsClosing by (auto split: if_splits)
next
  case (WsClose i)
  then have "i < length (sockets st)" and "readyState (sockets st ! i) \<noteq> CLOSED"
    and "st' = state_of (onclose (set_readyState i CLOSED st))"
    using s by (auto simp: ready_def split: if_splits)
  then show ?thesis using w wf_WsClose by simp
qed

lemma wf_run: "wf st \<Longrightarrow> run es st = Some st' \<Longrightarrow> wf st'"
proof (induction es arbitrary: st)
  case Nil
  then show ?case by simp
next
  case (Cons e es)
  then obtain st1 where 1: "step e st = Some st1" and 2: "run es st1 = Some st'"
    by (auto split: option.splits)
  have "wf st1" using wf_step [OF Cons.prems(1) 1] .
  then show ?case using Cons.IH 2 by blast
qed

lemma wf_reachable: "run es init = Some st \<Longrightarrow> wf st"
  using wf_run [OF wf_init] .

lemma onclose_eq:
  assumes "terminal st = Some t"
  shows "onclose st =
     Ok (st\<lparr>console := console st @ [DebugLog ''WebSocket disconnected''],
            terminal := Some (t\<lparr>screen := screen t @
              [Writeln (CRLF @ ESC # ''[31mDisconnected from backend server.'' @ ESC # ''[0m'' @ CRLF)]\<rparr>),
            timers := timers st @ [(5000, Reconnect)]\<rparr>)"
  using assms by (simp add: onclose_def debugLog_def term_do_def set_timeout_def)

lemma step_WsClose_timer:
  assumes r: "run es init = Some st" and s: "step (WsClose i) st = Some st'"
  shows "timers st' = timers st @ [(5000, Reconnect)] \<and> reconnects st' = 1
         \<and> ready st' i = Some CLOSED \<and> fetches st' = 0"
proof -
  have w: "wf st" using r by (rule wf_reachable)
  have i: "i < length (sockets st)" and c: "readyState (sockets st ! i) \<noteq> CLOSED"
    and st': "st' = state_of (onclose (set_readyState i CLOSED st))"
    using s by (auto simp: ready_def split: if_splits)
  obtain t where t: "terminal (set_readyState i CLOSED st) = Some t"
    using wf_live_socket(2) [OF w i c] by (auto simp: set_readyState_def)
  have "reconnects st = 0" "fetches st = 0" using wf_live_socket(3,4) [OF w i c] by simp_all
  then show ?thesis
    using i unfolding st' onclose_eq [OF t]
    by (simp add: set_readyState_def reconnects_def ready_def)
qed

subsection \<open>Input\<close>

lemma onData_connected:
  "connected st \<Longrightarrow> websocket st = Some i \<Longrightarrow> onData d st = Ok (with_sent i [input_frame d] st)"
  by (simp add: onData_def if_then_def connected_def websocket_send_def with_sent_def)

lemma onData_not_connected: "\<not> connected st \<Longrightarrow> onData d st = Ok st"
  by (simp add: onData_def if_then_def)

lemma with_sent_Nil: "with_sent i [] st = st"
  by (simp add: with_sent_def)

lemma with_sent_append:
  "i < length (sockets st) \<Longrightarrow> with_sent i gs (with_sent i fs st) = with_sent i (fs @ gs) st"
  by (simp add: with_sent_def)

lemma connected_with_sent: "connected (with_sent i fs st) = connected st"
proof (cases "websocket st")
  case None
  then show ?thesis by (simp add: connected_def with_sent_def)
next
  case (Some j)
  then show ?thesis by (cases "i = j") (auto simp: connected_def with_sent_def)
qed

lemma run_Data_connected:
  assumes "connected st" and "websocket st = Some i" and "terminal st \<noteq> None"
  shows "run (map Data ds) st = Some (with_sent i (map input_frame ds) st)"
  using assms
proof (induction ds arbitrary: st)
  case Nil
  then show ?case by (simp add: with_sent_Nil)
next
  case (Cons d ds)
  let ?st = "with_sent i [input_frame d] st"
  have i: "i < length (sockets st)" using Cons.prems by (simp add: connected_def)
  have s: "step (Data d) st = Some ?st"
    using Cons.prems by (simp add: onData_connected)
  have "connected ?st" using Cons.prems(1) by (simp add: connected_with_sent)
  moreover have "websocket ?st = Some i" and "terminal ?st \<noteq> None"
    using Cons.prems by (simp_all add: with_sent_def)
  ultimately have "run (map Data ds) ?st = Some (with_sent i (map input_frame ds) ?st)"
    by (rule Cons.IH)
  then show ?case using s i by (simp add: with_sent_append)
qed

text \<open>
  C1. Every input event of the terminal is handled by \<open>onData\<close>. The session is connected
  when the global socket exists and its \<open>readyState\<close> is OPEN. While it is connected, the
  event adds exactly one frame, the object with \<open>type\<close> \<open>input\<close> and the event's text,
  unchanged, as \<open>data\<close>, after the frames already sent on that socket, and changes nothing
  else; a sequence of events arrives as the same sequence of frames. While the session is
  not connected the event leaves the whole state as it is, so nothing is kept for later:
  every continuation of the session is the one without the event.
\<close>

theorem C1_input_forwarded_or_dropped:
  "connected st = (\<exists>j. websocket st = Some j \<and> j < length (sockets st)
                       \<and> readyState (sockets st ! j) = OPEN)
   \<and> (connected st \<longrightarrow> websocket st = Some i \<longrightarrow>
      onData d st = Ok (with_sent i [Object [(''type'', String ''input''), (''data'', String d)]] st)
      \<and> (terminal st \<noteq> None \<longrightarrow>
           run (map Data ds) st
             = Some (with_sent i
                       (map (\<lambda>d. Object [(''type'', String ''input''), (''data'', String d)]) ds) st)))
   \<and> (\<not> connected st \<longrightarrow>
      onData d st = Ok st
      \<and> (terminal st \<noteq> None \<longrightarrow> run (Data d # es) st = run es st))"
proof -
  have c: "connected st = (\<exists>j. websocket st = Some j \<and> j < length (sockets st)
                       \<and> readyState (sockets st ! j) = OPEN)"
    by (cases "websocket st") (simp_all add: connected_def)
  have f: "input_frame = (\<lambda>d. Object [(''type'', String ''input''), (''data'', String d)])"
    by (rule ext) (simp add: input_frame_def)
  have 1: "connected st \<Longrightarrow> websocket st = Some i \<Longrightarrow>
      onData d st = Ok (with_sent i [Object [(''type'', String ''input''), (''data'', String d)]] st)"
    using onData_connected [of st i d] by (simp add: input_frame_def)
  have 2: "run (map Data ds) st
        = Some (with_sent i
                  (map (\<lambda>d. Object [(''type'', String ''input''), (''data'', String d)]) ds) st)"
    if "connected st" and "websocket st = Some i" and "terminal st \<noteq> None"
    using run_Data_connected [OF that, of ds] by (simp only: f)
  have 3: "\<not> connected st \<Longrightarrow> onData d st = Ok st"
    by (rule onData_not_connected)
  have 4: "run (Data d # es) st = run es st" if "\<not> connected st" and "terminal st \<noteq> None"
    using that onData_not_connected [OF that(1), of d] by auto
  show ?thesis
    using c 1 2 3 4 by blast
qed

theorem C1_witness:
  "connected connected_state
   \<and> websocket connected_state = Some 0
   \<and> terminal connected_state \<noteq> None
   \<and> onData ''ls'' connected_state
       = Ok (with_sent 0 [Object [(''type'', String ''input''), (''data'', String ''ls'')]]
               connected_state)
   \<and> run (map Data [''l'', ''s'', [CHR 0x0D]]) connected_state
       = Some (with_sent 0
                 (map (\<lambda>d. Object [(''type'', String ''input''), (''data'', String d)])
                    [''l'', ''s'', [CHR 0x0D]])
                 connected_state)
   \<and> \<not> connected (the (run [ToggleTerminal] init))
   \<and> terminal (the (run [ToggleTerminal] init)) \<noteq> None
   \<and> onData ''ls'' (the (run [ToggleTerminal] init)) = Ok (the (run [ToggleTerminal] init))
   \<and> run [Data ''ls'', HealthResponse 200, WsOpen 0] (the (run [ToggleTerminal] init))
       = run [HealthResponse 200, WsOpen 0] (the (run [ToggleTerminal] init))"
proof -
  have 1: "connected connected_state"
    and 2: "websocket connected_state = Some 0"
    and 3: "terminal connected_state \<noteq> None"
    and 4: "\<not> connected (the (run [ToggleTerminal] init))"
    and 5: "terminal (the (run [ToggleTerminal] init)) \<noteq> None"
    by code_simp+
  note A = C1_input_forwarded_or_dropped [of connected_state 0 "''ls''" "[''l'', ''s'', [CHR 0x0D]]" "[]"]
  note B = C1_input_forwarded_or_dropped [of "the (run [ToggleTerminal] init)" 0 "''ls''" "[]"
             "[HealthResponse 200, WsOpen 0]"]
  have a: "onData ''ls'' connected_state
       = Ok (with_sent 0 [Object [(''type'', String ''input''), (''data'', String ''ls'')]]
               connected_state)"
    using A 1 2 by blast
  have a': "run (map Data [''l'', ''s'', [CHR 0x0D]]) connected_state
       = Some (with_sent 0
                 (map (\<lambda>d. Object [(''type'', String ''input''), (''data'', String d)])
                    [''l'', ''s'', [CHR 0x0D]])
                 connected_state)"
    using A 1 2 3 by blast
  have b: "onData ''ls'' (the (run [ToggleTerminal] init)) = Ok (the (run [ToggleTerminal] init))"
    using B 4 by blast
  have b': "run [Data ''ls'', HealthResponse 200, WsOpen 0] (the (run [ToggleTerminal] init))
       = run [HealthResponse 200, WsOpen 0] (the (run [ToggleTerminal] init))"
    using B 4 5 by blast
  show ?thesis
    by (intro conjI) (rule 1 2 3 4 5 a a' b b')+
qed

subsection \<open>Received frames\<close>

lemma open_socket_terminal:
  assumes "run es init = Some st" and "ready st i = Some OPEN"
  obtains t where "terminal st = Some t"
proof -
  have "wf st" using assms(1) by (rule wf_reachable)
  moreover have "i < length (sockets st)" and "readyState (sockets st ! i) \<noteq> CLOSED"
    using assms(2) by (simp_all add: ready_Some)
  ultimately have "terminal st \<noteq> None" by (rule wf_live_socket(2))
  then show ?thesis using that by auto
qed

lemma onmessage_output:
  assumes "terminal st = Some t" and "parsed ev = Some m" and "is_frame ''output'' d m"
    and "d \<noteq> Undefined" and "d \<noteq> Null"
  shows "onmessage ev st = Ok (st\<lparr>terminal := Some (t\<lparr>screen := screen t @ [Write d]\<rparr>)\<rparr>)"
  using assms
  by (simp add: onmessage_def try_catch_def onmessage_try_def is_frame_def term_write_def term_do_def)

lemma onmessage_error:
  assumes "terminal st = Some t" and "parsed ev = Some m"
    and "get_prop m ''type'' = Inr (String ''error'')" and "get_prop m ''data'' = Inr (String s)"
  shows "onmessage ev st =
     Ok (st\<lparr>terminal := Some (t\<lparr>screen := screen t @
           [Writeln ([CHR 0x0D, CHR 0x0A, CHR 0x1B] @ ''[31mError: '' @ s
                     @ [CHR 0x1B] @ ''[0m'' @ [CHR 0x0D, CHR 0x0A])]\<rparr>)\<rparr>)"
  using assms
  by (simp add: onmessage_def try_catch_def onmessage_try_def term_do_def error_line_def
        CRLF_def ESC_def)

lemma onmessage_unparsed:
  assumes "terminal st = Some t" and "parsed ev = None"
  shows "onmessage ev st =
           Ok (st\<lparr>console := console st @ [ConsoleError ''Error parsing WebSocket message:'' SyntaxError],
                  terminal := Some (t\<lparr>screen := screen t @ [Write (String (data ev))]\<rparr>)\<rparr>)"
  using assms
  by (simp add: onmessage_def try_catch_def onmessage_try_def onmessage_catch_def console_error_def
        term_write_def term_do_def)

lemma get_prop_defined: "m \<noteq> Null \<Longrightarrow> m \<noteq> Undefined \<Longrightarrow> \<exists>v. get_prop m k = Inr v"
  by (cases m) simp_all

lemma onmessage_other:
  assumes "parsed ev = Some m" and "m \<noteq> Null" and "m \<noteq> Undefined"
    and "get_prop m ''type'' \<noteq> Inr (String ''output'')"
    and "get_prop m ''type'' \<noteq> Inr (String ''error'')"
  shows "onmessage ev st = Ok st"
proof -
  obtain ty where "get_prop m ''type'' = Inr ty"
    using get_prop_defined [OF assms(2,3)] by blast
  then show ?thesis
    using assms by (simp add: onmessage_def try_catch_def onmessage_try_def)
qed

text \<open>
  C7. An Output frame is a message whose \<open>type\<close> is \<open>output\<close> and whose \<open>data\<close> is a
  string. For every such frame that arrives on an open socket in a state the program can
  reach, with any characters in the payload, the handler makes one call
  \<open>terminal.write\<close> with exactly the payload and changes nothing else.
\<close>

theorem C7_output_written_as_received:
  assumes "run es init = Some st" and "ready st i = Some OPEN"
    and "parsed ev = Some m" and "is_frame ''output'' (String s) m"
  shows "\<exists>t. terminal st = Some t
           \<and> step (WsMessage i ev) st
               = Some (st\<lparr>terminal := Some (t\<lparr>screen := screen t @ [Write (String s)]\<rparr>)\<rparr>)"
proof -
  obtain t where t: "terminal st = Some t"
    using open_socket_terminal [OF assms(1,2)] .
  show ?thesis
    using assms(2) onmessage_output [OF t assms(3,4)] t by simp
qed

theorem C7_witness:
  "run connect_events init = Some (the (run connect_events init))
   \<and> ready (the (run connect_events init)) 0 = Some OPEN
   \<and> parsed output_frame_example = Some (Object [(''type'', String ''output''),
                             (''data'', String (ESC # ''[1mhi'' @ CRLF))])
   \<and> is_frame ''output'' (String (ESC # ''[1mhi'' @ CRLF))
        (Object [(''type'', String ''output''), (''data'', String (ESC # ''[1mhi'' @ CRLF))])
   \<and> (\<exists>t. terminal (the (run connect_events init)) = Some t
           \<and> step (WsMessage 0 output_frame_example) (the (run connect_events init))
               = Some ((the (run connect_events init))
                    \<lparr>terminal := Some (t\<lparr>screen := screen t @ [Write (String (ESC # ''[1mhi'' @ CRLF))]\<rparr>)\<rparr>))"
proof -
  have 1: "run connect_events init = Some (the (run connect_events init))"
    and 2: "ready (the (run connect_events init)) 0 = Some OPEN"
    and 3: "parsed output_frame_example = Some (Object [(''type'', String ''output''),
                             (''data'', String (ESC # ''[1mhi'' @ CRLF))])"
    and 4: "is_frame ''output'' (String (ESC # ''[1mhi'' @ CRLF))
        (Object [(''type'', String ''output''), (''data'', String (ESC # ''[1mhi'' @ CRLF))])"
    by code_simp+
  show ?thesis
    using 1 2 3 4 C7_output_written_as_received [OF 1 2 3 4] by simp
qed

text \<open>
  C6, as stated, fails: a frame that \<open>JSON.parse\<close> rejects is not dropped. After the session
  is connected, the frame \<open>total 12\<close> is written to the terminal after the banner.
\<close>

theorem C6_counterexample:
  "map_option (\<lambda>st. map_option screen (terminal st))
     (run (connect_events @ [WsMessage 0 garbage_frame_example]) init)
   = Some (Some [Clear, Writeln (banner ! 0), Writeln (banner ! 1), Write (String ''total 12'')])"
  by code_simp

text \<open>
  C6, amended. For every frame that \<open>JSON.parse\<close> rejects, arriving on an open socket in a
  state the program can reach: the error is logged on the console, the text of the frame
  is written to the terminal as it came, and nothing else changes, so the socket stays
  open, no timer is set and the session stays connected.
\<close>

theorem C6_unparsed_frame_logged_and_written:
  assumes "run es init = Some st" and "ready st i = Some OPEN" and "parsed ev = None"
  shows "\<exists>t. terminal st = Some t
           \<and> step (WsMessage i ev) st
               = Some (st\<lparr>console := console st @ [ConsoleError ''Error parsing WebSocket message:'' SyntaxError],
                         terminal := Some (t\<lparr>screen := screen t @ [Write (String (data ev))]\<rparr>)\<rparr>)
           \<and> ready (the (step (WsMessage i ev) st)) i = Some OPEN
           \<and> connected (the (step (WsMessage i ev) st)) = connected st"
proof -
  obtain t where t: "terminal st = Some t"
    using open_socket_terminal [OF assms(1,2)] .
  have i: "i < length (sockets st)" "readyState (sockets st ! i) = OPEN"
    using assms(2) by (simp_all add: ready_Some)
  show ?thesis
    using assms(2) i t by (simp add: onmessage_unparsed [OF t assms(3)] ready_Some connected_def split: option.splits)
qed

theorem C6_witness:
  "run connect_events init = Some (the (run connect_events init))
   \<and> ready (the (run connect_events init)) 0 = Some OPEN
   \<and> parsed garbage_frame_example = None
   \<and> (\<exists>t. terminal (the (run connect_events init)) = Some t
         \<and> step (WsMessage 0 garbage_frame_example) (the (run connect_events init))
             = Some ((the (run connect_events init))
                  \<lparr>console := console (the (run connect_events init))
                       @ [ConsoleError ''Error parsing WebSocket message:'' SyntaxError],
                   terminal := Some (t\<lparr>screen := screen t @ [Write (String (data garbage_frame_example))]\<rparr>)\<rparr>)
         \<and> ready (the (step (WsMessage 0 garbage_frame_example) (the (run connect_events init)))) 0 = Some OPEN
         \<and> connected (the (step (WsMessage 0 garbage_frame_example) (the (run connect_events init))))
             = connected (the (run connect_events init)))"
proof -
  have 1: "run connect_events init = Some (the (run connect_events init))"
    and 2: "ready (the (run connect_events init)) 0 = Some OPEN"
    and 3: "parsed garbage_frame_example = None"
    by code_simp+
  show ?thesis
    using 1 2 3 C6_unparsed_frame_logged_and_written [OF 1 2 3] by simp
qed

text \<open>
  C8, as stated, fails: after an Error frame the session is still connected and no
  reconnect timer is pending, whereas after a close of the stream it is not connected and
  one reconnect timer is pending.
\<close>

theorem C8_counterexample:
  "map_option (\<lambda>st. (connected st, reconnects st, fetches st))
     (run (connect_events @ [WsMessage 0 error_frame_example]) init) = Some (True, 0, 0)
   \<and> map_option (\<lambda>st. (connected st, reconnects st, fetches st))
     (run (connect_events @ [WsClose 0]) init) = Some (False, 1, 0)"
  by code_simp

text \<open>
  C8, amended. An Error frame (a message whose \<open>type\<close> is \<open>error\<close> and whose \<open>data\<close> is a
  text) does not end the session on the client. For every such frame on an open socket in
  a reachable state, the handler writes one line, \<open>Error:\<close> and the text in red between
  two line breaks, to the terminal and changes nothing else: the socket stays open, the
  session stays connected and no reconnect is scheduled. The client schedules a
  reconnect, one timer of 5000 ms, when the stream closes.
\<close>

theorem C8_error_frame_only_printed:
  assumes "run es init = Some st" and "ready st i = Some OPEN"
    and "parsed ev = Some m"
    and "get_prop m ''type'' = Inr (String ''error'')" and "get_prop m ''data'' = Inr (String s)"
  shows "\<exists>t. terminal st = Some t
           \<and> step (WsMessage i ev) st
               = Some (st\<lparr>terminal := Some (t\<lparr>screen := screen t @
                    [Writeln ([CHR 0x0D, CHR 0x0A, CHR 0x1B] @ ''[31mError: '' @ s
                              @ [CHR 0x1B] @ ''[0m'' @ [CHR 0x0D, CHR 0x0A])]\<rparr>)\<rparr>)
           \<and> ready (the (step (WsMessage i ev) st)) i = Some OPEN
           \<and> connected (the (step (WsMessage i ev) st)) = connected st
           \<and> timers (the (step (WsMessage i ev) st)) = timers st
           \<and> timers (the (step (WsClose i) st)) = timers st @ [(5000, Reconnect)]"
proof -
  obtain t where t: "terminal st = Some t"
    using open_socket_terminal [OF assms(1,2)] .
  have i: "i < length (sockets st)" "readyState (sockets st ! i) = OPEN"
    using assms(2) by (simp_all add: ready_Some)
  have c: "step (WsClose i) st = Some (the (step (WsClose i) st))"
    using assms(2) by simp
  have 1: "timers (the (step (WsClose i) st)) = timers st @ [(5000, Reconnect)]"
    using step_WsClose_timer [OF assms(1) c] by (rule conjunct1)
  have 2: "step (WsMessage i ev) st
               = Some (st\<lparr>terminal := Some (t\<lparr>screen := screen t @
                    [Writeln ([CHR 0x0D, CHR 0x0A, CHR 0x1B] @ ''[31mError: '' @ s
                              @ [CHR 0x1B] @ ''[0m'' @ [CHR 0x0D, CHR 0x0A])]\<rparr>)\<rparr>)"
    using assms(2) by (simp add: onmessage_error [OF t assms(3,4,5)])
  show ?thesis
    unfolding 2 using t i 1 by (simp add: ready_Some connected_def split: option.splits)
qed

theorem C8_witness:
  "run connect_events init = Some connected_state
   \<and> ready connected_state 0 = Some OPEN
   \<and> parsed error_frame_example
       = Some (Object [(''type'', String ''error''), (''data'', String ''shell exited'')])
   \<and> get_prop (Object [(''type'', String ''error''), (''data'', String ''shell exited'')]) ''type''
       = Inr (String ''error'')
   \<and> get_prop (Object [(''type'', String ''error''), (''data'', String ''shell exited'')]) ''data''
       = Inr (String ''shell exited'')
   \<and> (\<exists>t. terminal connected_state = Some t
         \<and> step (WsMessage 0 error_frame_example) connected_state
             = Some (connected_state\<lparr>terminal := Some (t\<lparr>screen := screen t @
                    [Writeln ([CHR 0x0D, CHR 0x0A, CHR 0x1B] @ ''[31mError: '' @ ''shell exited''
                              @ [CHR 0x1B] @ ''[0m'' @ [CHR 0x0D, CHR 0x0A])]\<rparr>)\<rparr>)
         \<and> ready (the (step (WsMessage 0 error_frame_example) connected_state)) 0 = Some OPEN
         \<and> connected (the (step (WsMessage 0 error_frame_example) connected_state))
             = connected connected_state
         \<and> timers (the (step (WsMessage 0 error_frame_example) connected_state))
             = timers connected_state
         \<and> timers (the (step (WsClose 0) connected_state))
             = timers connected_state @ [(5000, Reconnect)])"
proof -
  have 1: "run connect_events init = Some connected_state"
    and 2: "ready connected_state 0 = Some OPEN"
    and 3: "parsed error_frame_example
       = Some (Object [(''type'', String ''error''), (''data'', String ''shell exited'')])"
    and 4: "get_prop (Object [(''type'', String ''error''), (''data'', String ''shell exited'')]) ''type''
       = Inr (String ''error'')"
    and 5: "get_prop (Object [(''type'', String ''error''), (''data'', String ''shell exited'')]) ''data''
       = Inr (String ''shell exited'')"
    by code_simp+
  note A = C8_error_frame_only_printed [OF 1 2 3 4 5]
  show ?thesis
    by (intro conjI) (rule 1 2 3 4 5 A)+
qed

text \<open>
  C10, as stated, fails at the frame \<open>null\<close>: \<open>JSON.parse\<close> accepts it, reading its \<open>type\<close>
  throws, and the handler's \<open>catch\<close> logs an error and writes the text \<open>null\<close> to the
  terminal.
\<close>

theorem C10_counterexample:
  "map_option (\<lambda>st. (map_option screen (terminal st), last (console st)))
     (run (connect_events @ [WsMessage 0 null_frame_example]) init)
   = Some (Some [Clear, Writeln (banner ! 0), Writeln (banner ! 1), Write (String ''null'')],
           ConsoleError ''Error parsing WebSocket message:'' TypeError)"
  by code_simp

text \<open>
  C10, amended. For every frame that \<open>JSON.parse\<close> accepts, other than \<open>null\<close>, whose \<open>type\<close>
  is neither the string \<open>output\<close> nor the string \<open>error\<close> (an input or resize frame, an
  object without \<open>type\<close>, a number, a string, an array, any unknown type): the handler
  returns without any effect. The whole state, console included, is as before.
\<close>

theorem C10_other_frames_ignored:
  assumes "parsed ev = Some m" and "m \<noteq> Null" and "m \<noteq> Undefined"
    and "get_prop m ''type'' \<noteq> Inr (String ''output'')"
    and "get_prop m ''type'' \<noteq> Inr (String ''error'')"
  shows "onmessage ev st = Ok st
         \<and> (ready st i = Some OPEN \<longrightarrow> step (WsMessage i ev) st = Some st)"
  using onmessage_other [OF assms] by simp

theorem C10_witness:
  "parsed resize_echo_example = Some (resize_frame 80 24)
   \<and> resize_frame 80 24 \<noteq> Null \<and> resize_frame 80 24 \<noteq> Undefined
   \<and> get_prop (resize_frame 80 24) ''type'' \<noteq> Inr (String ''output'')
   \<and> get_prop (resize_frame 80 24) ''type'' \<noteq> Inr (String ''error'')
   \<and> onmessage resize_echo_example (the (run connect_events init)) = Ok (the (run connect_events init))
   \<and> ready (the (run connect_events init)) 0 = Some OPEN
   \<and> step (WsMessage 0 resize_echo_example) (the (run connect_events init))
       = Some (the (run connect_events init))"
proof -
  have 1: "parsed resize_echo_example = Some (resize_frame 80 24)"
    and 2: "resize_frame 80 24 \<noteq> Null" and 3: "resize_frame 80 24 \<noteq> Undefined"
    and 4: "get_prop (resize_frame 80 24) ''type'' \<noteq> Inr (String ''output'')"
    and 5: "get_prop (resize_frame 80 24) ''type'' \<noteq> Inr (String ''error'')"
    and 6: "ready (the (run connect_events init)) 0 = Some OPEN"
    by code_simp+
  show ?thesis
    using 1 2 3 4 5 6 C10_other_frames_ignored [OF 1 2 3 4 5, of "the (run connect_events init)" 0]
    by simp
qed

subsection \<open>The health probe\<close>

lemma pending_fetch_terminal:
  assumes "run es init = Some st" and "0 < fetches st"
  obtains t where "terminal st = Some t"
proof -
  have "wf st" using assms(1) by (rule wf_reachable)
  then have "terminal st \<noteq> None" using assms(2) by (auto simp: wf_def shape_def)
  then show ?thesis using that by auto
qed

lemma fetch_then_failed:
  assumes "terminal st = Some t" and "\<not> response_ok status"
  shows "fetch_then status st =
     Ok (st\<lparr>console := console st @ [DebugLog (''Health check response: '' @ show_int status),
                                       DebugLog (''Health check failed with status: '' @ show_int status)],
            terminal := Some (t\<lparr>screen := screen t @ map Writeln not_running\<rparr>)\<rparr>)"
  using assms by (simp add: fetch_then_def debugLog_def term_do_def not_running_def)

lemma fetch_then_ok:
  assumes "response_ok status"
  shows "fetch_then status st =
     Ok (st\<lparr>console := console st @ [DebugLog (''Health check response: '' @ show_int status),
                                       DebugLog ''Health check successful, connecting to WebSocket'',
                                       DebugLog ''Connecting to WebSocket at ws://127.0.0.1:3030/terminal''],
            sockets := sockets st @ [\<lparr>readyState = CONNECTING, sent = []\<rparr>],
            websocket := Some (length (sockets st))\<rparr>)"
  using assms by (simp add: fetch_then_def debugLog_def connectWebSocket_def)

lemma fetch_catch_eq:
  assumes "terminal st = Some t"
  shows "fetch_catch e st =
     Ok (st\<lparr>console := console st @ [ConsoleError ''Error connecting to backend:'' e,
                                       DebugLogError ''Connection error details: '' e],
            terminal := Some (t\<lparr>screen := screen t @ map Writeln cannot_connect\<rparr>)\<rparr>)"
  using assms
  by (simp add: fetch_catch_def console_error_def debugLog_error_def term_do_def cannot_connect_def)

text \<open>
  C3. In every state the program can reach with a health request in flight: when the
  request is answered with a status outside 200..299, or fails in transport, no socket is
  created (the store of sockets and the global are as before), three lines of diagnostic
  are written to the terminal, and nothing is retried: the request is gone, no new one is
  started and the timers are as before. A socket is created exactly when the status is
  in 200..299.
\<close>

theorem C3_probe_failure_opens_no_stream:
  assumes "run es init = Some st" and "0 < fetches st"
  shows "\<exists>t. terminal st = Some t
     \<and> (\<not> response_ok status \<longrightarrow>
          step (HealthResponse status) st =
            Some (st\<lparr>fetches := fetches st - 1,
                     console := console st @ [DebugLog (''Health check response: '' @ show_int status),
                                              DebugLog (''Health check failed with status: '' @ show_int status)],
                     terminal := Some (t\<lparr>screen := screen t @ map Writeln not_running\<rparr>)\<rparr>))
     \<and> step HealthError st =
            Some (st\<lparr>fetches := fetches st - 1,
                     console := console st @ [ConsoleError ''Error connecting to backend:'' TypeError,
                                              DebugLogError ''Connection error details: '' TypeError],
                     terminal := Some (t\<lparr>screen := screen t @ map Writeln cannot_connect\<rparr>)\<rparr>)
     \<and> (length (sockets (the (step (HealthResponse status) st))) = Suc (length (sockets st))
          \<longleftrightarrow> response_ok status)
     \<and> (sockets (the (step (HealthResponse status) st)) = sockets st
          \<longleftrightarrow> \<not> response_ok status)
     \<and> response_ok status = (200 \<le> status \<and> status \<le> 299)"
proof -
  obtain t where t: "terminal st = Some t"
    using pending_fetch_terminal [OF assms] .
  let ?st = "st\<lparr>fetches := fetches st - 1\<rparr>"
  have t': "terminal ?st = Some t" using t by simp
  have 1: "\<not> response_ok status \<Longrightarrow> step (HealthResponse status) st =
            Some (st\<lparr>fetches := fetches st - 1,
                     console := console st @ [DebugLog (''Health check response: '' @ show_int status),
                                              DebugLog (''Health check failed with status: '' @ show_int status)],
                     terminal := Some (t\<lparr>screen := screen t @ map Writeln not_running\<rparr>)\<rparr>)"
    using assms(2) by (simp add: try_catch_def fetch_then_failed [OF t'] del: One_nat_def)
  have 2: "step HealthError st =
            Some (st\<lparr>fetches := fetches st - 1,
                     console := console st @ [ConsoleError ''Error connecting to backend:'' TypeError,
                                              DebugLogError ''Connection error details: '' TypeError],
                     terminal := Some (t\<lparr>screen := screen t @ map Writeln cannot_connect\<rparr>)\<rparr>)"
    using assms(2) by (simp add: fetch_catch_eq [OF t'] del: One_nat_def)
  have 3: "response_ok status \<Longrightarrow>
      sockets (the (step (HealthResponse status) st)) = sockets st @ [\<lparr>readyState = CONNECTING, sent = []\<rparr>]"
    using assms(2) by (simp add: try_catch_def fetch_then_ok del: One_nat_def)
  have 4: "\<not> response_ok status \<Longrightarrow> sockets (the (step (HealthResponse status) st)) = sockets st"
    using 1 by simp
  show ?thesis
    using t 1 2 3 4 by (cases "response_ok status") (simp_all add: response_ok_def)
qed

theorem C3_witness:
  "run [ToggleTerminal] init = Some (the (run [ToggleTerminal] init))
   \<and> 0 < fetches (the (run [ToggleTerminal] init))
   \<and> \<not> response_ok 503 \<and> response_ok 204
   \<and> map_option (\<lambda>st. (sockets st, fetches st, reconnects st, map_option screen (terminal st)))
        (step (HealthResponse 503) (the (run [ToggleTerminal] init)))
       = Some ([], 0, 0, Some (map Writeln not_running))
   \<and> map_option (\<lambda>st. (sockets st, fetches st, reconnects st, map_option screen (terminal st)))
        (step HealthError (the (run [ToggleTerminal] init)))
       = Some ([], 0, 0, Some (map Writeln cannot_connect))
   \<and> length (sockets (the (step (HealthResponse 204) (the (run [ToggleTerminal] init))))) = 1"
proof -
  have 1: "run [ToggleTerminal] init = Some (the (run [ToggleTerminal] init))"
    and 2: "0 < fetches (the (run [ToggleTerminal] init))"
    and 3: "\<not> response_ok 503" and 4: "response_ok 204"
    and 5: "sockets (the (run [ToggleTerminal] init)) = []"
    and 6: "reconnects (the (run [ToggleTerminal] init)) = 0"
    and 7: "fetches (the (run [ToggleTerminal] init)) = 1"
    and 8: "map_option screen (terminal (the (run [ToggleTerminal] init))) = Some []"
    by code_simp+
  show ?thesis
    using 1 2 3 4 5 6 7 8 C3_probe_failure_opens_no_stream [OF 1 2, of 503]
      C3_probe_failure_opens_no_stream [OF 1 2, of 204]
    by (auto simp: reconnects_def)
qed

subsection \<open>Reconnection and the close by the user\<close>


lemma step_Timeout_Reconnect:
  assumes "k < length (timers st)" and "snd (timers st ! k) = Reconnect"
  shows "step (Timeout k) st =
     Some (if visible st
           then (without_timer k st)
                  \<lparr>console := console st @ [DebugLog (''Connecting to backend server at '' @ BACKEND_URL)],
                   fetches := Suc (fetches st)\<rparr>
           else without_timer k st)"
  using assms
  by (simp add: if_then_def visible_def connectToBackend_def debugLog_def without_timer_def)









lemma connected_cong:
  "websocket a = websocket b \<Longrightarrow> sockets a = sockets b \<Longrightarrow> connected a = connected b"
  by (simp add: connected_def split: option.splits)

lemma toggleTerminal_hide:
  assumes "terminalSidebar st = Some d" and "d \<noteq> ''none''"
  shows "toggleTerminal st =
     Ok (st\<lparr>console := console st @ [DebugLog ''toggleTerminal function called'',
                                       ShowMsg ''Terminal button clicked'',
                                       DebugLog ''Hiding terminal sidebar''],
            terminalSidebar := Some ''none''\<rparr>)"
  using assms
  by (simp add: toggleTerminal_def toggleTerminal_try_def try_catch_def debugLog_def showMsg_def
        set_display_def)

text \<open>
  C5, as stated, fails: the user's close tears nothing down. When the user closes the
  terminal of a connected session, the socket is still open and is still the session's
  connection; when the user closes it while a reconnect timer is pending, the timer is
  still pending.
\<close>

theorem C5_counterexample:
  "map_option (\<lambda>st. (visible st, connected st, map readyState (sockets st)))
     (run (connect_events @ [ToggleTerminal]) init) = Some (False, True, [OPEN])
   \<and> map_option (\<lambda>st. (visible st, reconnects st))
     (run (closed_events @ [ToggleTerminal]) init) = Some (False, 1)"
  by code_simp

text \<open>
  C5, amended. An explicit user close (\<open>toggleTerminal\<close> while the sidebar is shown) only
  hides the sidebar: apart from the console, the display style is the only part of the
  state that changes, so an open stream stays open and a pending reconnect timer stays
  scheduled. A reconnect timer that fires while the sidebar is hidden is removed and
  makes no connection attempt.
\<close>

theorem C5_close_only_hides:
  assumes "terminalSidebar st = Some d" and "d \<noteq> ''none''"
  shows "step ToggleTerminal st =
     Some (st\<lparr>console := console st @ [DebugLog ''toggleTerminal function called'',
                                         ShowMsg ''Terminal button clicked'',
                                         DebugLog ''Hiding terminal sidebar''],
              terminalSidebar := Some ''none''\<rparr>)
     \<and> \<not> visible (the (step ToggleTerminal st))
     \<and> sockets (the (step ToggleTerminal st)) = sockets st
     \<and> connected (the (step ToggleTerminal st)) = connected st
     \<and> timers (the (step ToggleTerminal st)) = timers st
     \<and> (k < length (timers st) \<longrightarrow> snd (timers st ! k) = Reconnect \<longrightarrow>
          step (Timeout k) (the (step ToggleTerminal st))
            = Some (without_timer k (the (step ToggleTerminal st))))"
proof -
  let ?st = "st\<lparr>console := console st @ [DebugLog ''toggleTerminal function called'',
                                         ShowMsg ''Terminal button clicked'',
                                         DebugLog ''Hiding terminal sidebar''],
              terminalSidebar := Some ''none''\<rparr>"
  have s: "step ToggleTerminal st = Some ?st"
    by (simp add: toggleTerminal_hide [OF assms])
  have e: "the (step ToggleTerminal st) = ?st"
    by (simp only: s option.sel)
  have v: "\<not> visible ?st" by (simp add: visible_def)
  have c: "connected ?st = connected st"
    by (rule connected_cong) simp_all
  have t: "step (Timeout k) ?st = Some (without_timer k ?st)"
    if k: "k < length (timers st)" and r: "snd (timers st ! k) = Reconnect"
  proof -
    have "k < length (timers ?st)" and "snd (timers ?st ! k) = Reconnect"
      using k r by simp_all
    then have "step (Timeout k) ?st =
       Some (if visible ?st
             then (without_timer k ?st)
                    \<lparr>console := console ?st @ [DebugLog (''Connecting to backend server at '' @ BACKEND_URL)],
                     fetches := Suc (fetches ?st)\<rparr>
             else without_timer k ?st)"
      by (rule step_Timeout_Reconnect)
    then show ?thesis using v by (simp only: if_False)
  qed
  have 1: "sockets ?st = sockets st" and 2: "timers ?st = timers st"
    by simp_all
  show ?thesis
    unfolding e using s v c t 1 2 by blast
qed

theorem C5_witness:
  "terminalSidebar connected_state = Some ''flex'' \<and> ''flex'' \<noteq> ''none''
   \<and> step ToggleTerminal connected_state =
     Some (connected_state\<lparr>console := console connected_state @ [DebugLog ''toggleTerminal function called'',
                                         ShowMsg ''Terminal button clicked'',
                                         DebugLog ''Hiding terminal sidebar''],
              terminalSidebar := Some ''none''\<rparr>)
   \<and> connected connected_state
   \<and> connected (the (step ToggleTerminal connected_state))
   \<and> terminalSidebar closed_state = Some ''flex''
   \<and> 1 < length (timers closed_state) \<and> snd (timers closed_state ! 1) = Reconnect
   \<and> timers (the (step ToggleTerminal closed_state)) = timers closed_state
   \<and> step (Timeout 1) (the (step ToggleTerminal closed_state))
            = Some (without_timer 1 (the (step ToggleTerminal closed_state)))"
proof -
  have 1: "terminalSidebar connected_state = Some ''flex''" and 2: "''flex'' \<noteq> ''none''"
    and 3: "connected connected_state"
    and 4: "terminalSidebar closed_state = Some ''flex''"
    and 5: "1 < length (timers closed_state)" and 6: "snd (timers closed_state ! 1) = Reconnect"
    by code_simp+
  note A = C5_close_only_hides [OF 1 2, of 0]
  note B = C5_close_only_hides [OF 4 2, of 1]
  have a: "step ToggleTerminal connected_state =
     Some (connected_state\<lparr>console := console connected_state @ [DebugLog ''toggleTerminal function called'',
                                         ShowMsg ''Terminal button clicked'',
                                         DebugLog ''Hiding terminal sidebar''],
              terminalSidebar := Some ''none''\<rparr>)"
    using A by (rule conjunct1)
  have a': "connected (the (step ToggleTerminal connected_state))"
    using A 3 by blast
  have b: "timers (the (step ToggleTerminal closed_state)) = timers closed_state"
    using B by blast
  have b': "step (Timeout 1) (the (step ToggleTerminal closed_state))
            = Some (without_timer 1 (the (step ToggleTerminal closed_state)))"
    using B 5 6 by blast
  show ?thesis
    using 1 2 3 4 5 6 a a' b b' by blast
qed

subsection \<open>The opening of the stream\<close>













subsection \<open>Fitting the terminal\<close>

text \<open>
  The resize listener, and with it the timer of \<open>openTerminal\<close>, which has the same body:
  when the session is connected, the fit is followed by one resize frame with the grid the
  terminal has after the fit; when it is not, nothing is sent and nothing is thrown. The
  timer of \<open>toggleTerminal\<close> fits and never sends.
\<close>

lemma fit_eq:
  "fit st = Ok (st\<lparr>terminal := map_option
       (\<lambda>t. case proposed st of
              None \<Rightarrow> t
            | Some (c, r) \<Rightarrow>
                t\<lparr>cols := c, rows := r,
                  screen := screen t @ (if c = cols t \<and> r = rows t then [] else [Resize c r])\<rparr>)
       (terminal st)\<rparr>)"
  by (cases "terminal st"; cases "proposed st") (auto simp: fit_def)

lemma FitOnly_sends_nothing:
  "sockets (state_of (run_callback FitOnly st)) = sockets st"
  by (simp add: if_then_def fit_eq debugLog_def)

lemma onresize_not_connected:
  assumes "\<not> connected st"
  shows "\<exists>st'. onresize st = Ok st' \<and> sockets st' = sockets st"
proof -
  have "\<not> connected (state_of (fit st))"
    using assms by (simp add: fit_eq connected_def split: option.splits)
  then show ?thesis
    by (simp add: onresize_def if_then_def fit_eq)
qed

lemma onresize_connected:
  assumes "connected st" and "websocket st = Some i" and "fitAddon st"
    and "terminal (state_of (fit st)) = Some t'"
  shows "onresize st = Ok (with_sent i [resize_frame (cols t') (rows t')] (state_of (fit st)))"
proof -
  have c: "connected (state_of (fit st))"
    using assms(1) by (simp add: fit_eq connected_def split: option.splits)
  have w: "websocket (state_of (fit st)) = Some i" "sockets (state_of (fit st)) = sockets st"
    using assms(2) by (simp_all add: fit_eq)
  have "send_resize (state_of (fit st))
          = Ok (with_sent i [resize_frame (cols t') (rows t')] (state_of (fit st)))"
    using c w assms(4) by (simp add: send_resize_def websocket_send_def connected_def with_sent_def)
  then show ?thesis
    using assms(3) c by (simp add: onresize_def if_then_def fit_eq)
qed

text \<open>
  C2 fails on the code. The session is connected with a grid of 37 by 40. The user hides
  the sidebar, the window is resized while it is hidden (the fit addon cannot measure, the
  listener sends the old grid again), and the user shows the sidebar again with
  \<open>toggleTerminal\<close>: its timer fits the terminal to the new size, 37 by 60, and sends
  nothing, so the last grid the server was told is 37 by 40. Shown again with
  \<open>openTerminal\<close> instead, the same fit is followed by a resize frame with 37 by 60.
\<close>

theorem C2_refit_on_show_sends_no_resize:
  "map_option (\<lambda>st. (connected st, map_option (\<lambda>t. (cols t, rows t)) (terminal st), map sent (sockets st)))
     (run (resized_while_hidden @ [ToggleTerminal, Reflow (Some (37, 60)), Timeout 0]) init)
   = Some (True, Some (37, 60), [[resize_frame 37 40, resize_frame 37 40]])
   \<and> map_option (\<lambda>st. (connected st, map_option (\<lambda>t. (cols t, rows t)) (terminal st), map sent (sockets st)))
     (run (resized_while_hidden @ [SlashTerminal, Reflow (Some (37, 60)), Timeout 0]) init)
   = Some (True, Some (37, 60), [[resize_frame 37 40, resize_frame 37 40, resize_frame 37 60]])"
  by code_simp

end
